theory Spec2Isabelle
  imports Main
begin

section \<open>Python values used by the server\<close>

text \<open>
  A Python \<^verbatim>\<open>str\<close> is a sequence of Unicode code points. It is modelled as a list of
  natural numbers, one per code point, so that \<^verbatim>\<open>str.strip\<close> (which removes Unicode
  white space) and \<^verbatim>\<open>str.encode('utf-8')\<close> (which counts bytes, not code points) can
  both be written down as the interpreter performs them.
\<close>

type_synonym pystr = "nat list"

definition lit :: "string \<Rightarrow> pystr" where
  "lit s = map of_char s"

text \<open>The code points for which \<^verbatim>\<open>str.isspace\<close> holds; \<^verbatim>\<open>str.strip()\<close> removes them.\<close>

definition isspace :: "nat \<Rightarrow> bool" where
  "isspace c \<longleftrightarrow>
     (9 \<le> c \<and> c \<le> 13) \<or> (28 \<le> c \<and> c \<le> 32) \<or> c = 133 \<or> c = 160 \<or> c = 5760 \<or>
     (8192 \<le> c \<and> c \<le> 8202) \<or> c = 8232 \<or> c = 8233 \<or> c = 8239 \<or> c = 8287 \<or> c = 12288"

definition strip :: "pystr \<Rightarrow> pystr" where
  "strip s = rev (dropWhile isspace (rev (dropWhile isspace s)))"

text \<open>
  \<^verbatim>\<open>len(s.encode('utf-8'))\<close>: one to four bytes per code point. A surrogate code point
  (U+D800 to U+DFFF) has no UTF-8 encoding and makes \<^verbatim>\<open>encode\<close> raise
  \<^verbatim>\<open>UnicodeEncodeError\<close>; that is the value \<open>None\<close>.
\<close>

definition utf8_width :: "nat \<Rightarrow> nat option" where
  "utf8_width c =
     (if c < 128 then Some 1
      else if c < 2048 then Some 2
      else if 55296 \<le> c \<and> c \<le> 57343 then None
      else if c < 65536 then Some 3
      else Some 4)"

fun encode_utf8_len :: "pystr \<Rightarrow> nat option" where
  "encode_utf8_len [] = Some 0"
| "encode_utf8_len (c # cs) =
     (case utf8_width c of
        None \<Rightarrow> None
      | Some k \<Rightarrow> (case encode_utf8_len cs of None \<Rightarrow> None | Some n \<Rightarrow> Some (k + n)))"

text \<open>The decimal digits an f-string prints for a non-negative \<^verbatim>\<open>int\<close>.\<close>

fun str_nat :: "nat \<Rightarrow> pystr" where
  "str_nat n = (if n < 10 then [48 + n] else str_nat (n div 10) @ [48 + n mod 10])"

declare str_nat.simps [simp del]

text \<open>\<^verbatim>\<open>html.escape(s)\<close> with its default \<^verbatim>\<open>quote=True\<close>.\<close>

definition escape_char :: "nat \<Rightarrow> pystr" where
  "escape_char c =
     (if c = 38 then lit ''&amp;''
      else if c = 60 then lit ''&lt;''
      else if c = 62 then lit ''&gt;''
      else if c = 34 then lit ''&quot;''
      else if c = 39 then lit ''&#x27;''
      else [c])"

definition html_escape :: "pystr \<Rightarrow> pystr" where
  "html_escape s = concat (map escape_char s)"

text \<open>\<^verbatim>\<open>"\n".join(lines)\<close>.\<close>

fun join_nl :: "pystr list \<Rightarrow> pystr" where
  "join_nl [] = []"
| "join_nl [l] = l"
| "join_nl (l # ls) = l @ 10 # join_nl ls"

section \<open>Exceptions and HTTP results\<close>

text \<open>
  The exceptions the three endpoints can meet. \<^verbatim>\<open>ParseError\<close> and \<^verbatim>\<open>SkillError\<close> are
  imported from \<^verbatim>\<open>errors\<close>; each carries its message, which is what \<^verbatim>\<open>str(e)\<close>
  returns. Every handler list of the server names \<^verbatim>\<open>ParseError\<close> before
  \<^verbatim>\<open>SkillError\<close>, and \<^verbatim>\<open>ParseError\<close> is taken to be one of the \<^verbatim>\<open>SkillError\<close>s.
  \<open>UnicodeEncodeError\<close> and \<open>AttributeError\<close> are the two exceptions the endpoint
  bodies can raise by themselves; \<open>OtherException\<close> is any other exception of a
  callee.
\<close>

datatype exn =
    ParseError pystr
  | SkillError pystr
  | UnicodeEncodeError
  | AttributeError
  | OtherException pystr

text \<open>
  The \<^verbatim>\<open>detail\<close> of an \<^verbatim>\<open>HTTPException\<close>: a text, or
  \<^verbatim>\<open>f"Internal error: {str(e)}"\<close> for the exception \<open>e\<close> that reached the last handler.
\<close>

datatype detail = Text pystr | Internal_error exn

datatype 'a http = Response 'a | HTTPException nat detail

text \<open>The calls an endpoint makes into the core, in the order it makes them.\<close>

datatype core_call = Call_parse_frontmatter | Call_validate_metadata

section \<open>Metadata\<close>

text \<open>
  Modelled from the spec: the type of a metadata value, which the parser (not part of
  the server file) produces. The spec's data model gives a scalar: string, boolean,
  number or null. The server only asks whether a value is a \<^verbatim>\<open>str\<close>.
\<close>

datatype pyval = String pystr | Boolean bool | Number int | Null

type_synonym metadata = "pystr \<rightharpoonup> pyval"

section \<open>Request and response models\<close>

record ValidationTextRequest =
  content :: pystr

text \<open>
  \<^verbatim>\<open>Config.max_anystr_length\<close> of the request model: a limit on the length of \<open>content\<close>
  in characters, which belongs to the construction of the request, before an endpoint
  body runs. The endpoint functions below take a request that has been built.
\<close>

definition max_anystr_length :: nat where
  "max_anystr_length = 1000000"

record ValidationResponse =
  valid :: bool
  problems :: "pystr list option"

record PropertiesResponse =
  name :: pystr
  description :: pystr

record PromptResponse =
  prompt :: pystr

text \<open>The size limit of the three text endpoints, in UTF-8 bytes.\<close>

definition size_limit :: nat where
  "size_limit = 1000000"

definition content_size_detail :: "nat \<Rightarrow> detail" where
  "content_size_detail content_size =
     Text (lit ''Content size '' @ str_nat content_size @ lit '' bytes exceeds 1MB limit'')"

section \<open>The endpoints\<close>

text \<open>
  \<^verbatim>\<open>parse_frontmatter\<close> and \<^verbatim>\<open>validate_metadata\<close> are imported by the server and are
  parameters here: a call returns a value (\<open>Inr\<close>) or raises (\<open>Inl\<close>).
\<close>

type_synonym parser = "pystr \<Rightarrow> exn + (metadata \<times> pystr)"
type_synonym 'dir validator = "metadata \<Rightarrow> 'dir option \<Rightarrow> exn + pystr list"

text \<open>
  The handlers that close \<^verbatim>\<open>validate_skill_text\<close> and \<^verbatim>\<open>get_properties_from_text\<close>:
  a \<^verbatim>\<open>SkillError\<close> (a \<^verbatim>\<open>ParseError\<close> among them) becomes status 400 with its
  message, anything else status 500.
\<close>

fun skill_error_handlers :: "exn \<Rightarrow> 'a http" where
  "skill_error_handlers (ParseError m) = HTTPException 400 (Text m)"
| "skill_error_handlers (SkillError m) = HTTPException 400 (Text m)"
| "skill_error_handlers e = HTTPException 500 (Internal_error e)"

text \<open>The handlers that close \<^verbatim>\<open>generate_prompt_text\<close>: only \<^verbatim>\<open>ParseError\<close> becomes 400.\<close>

fun parse_error_handlers :: "exn \<Rightarrow> 'a http" where
  "parse_error_handlers (ParseError m) = HTTPException 400 (Text m)"
| "parse_error_handlers e = HTTPException 500 (Internal_error e)"

definition validate_skill_text ::
  "parser \<Rightarrow> 'dir validator \<Rightarrow> ValidationTextRequest \<Rightarrow>
     core_call list \<times> ValidationResponse http" where
  "validate_skill_text parse_fm validate_md request =
     (case encode_utf8_len (content request) of
        None \<Rightarrow> ([], HTTPException 500 (Internal_error UnicodeEncodeError))
      | Some content_size \<Rightarrow>
          if content_size > size_limit
          then ([], HTTPException 413 (content_size_detail content_size))
          else
            (case parse_fm (content request) of
               Inl (ParseError m) \<Rightarrow>
                 ([Call_parse_frontmatter], Response \<lparr>valid = False, problems = Some [m]\<rparr>)
             | Inl e \<Rightarrow> ([Call_parse_frontmatter], skill_error_handlers e)
             | Inr (md, _) \<Rightarrow>
                 (case validate_md md None of
                    Inl e \<Rightarrow>
                      ([Call_parse_frontmatter, Call_validate_metadata], skill_error_handlers e)
                  | Inr ps \<Rightarrow>
                      ([Call_parse_frontmatter, Call_validate_metadata],
                       Response \<lparr>valid = (length ps = 0),
                                 problems = (if ps \<noteq> [] then Some ps else None)\<rparr>))))"

text \<open>
  \<^verbatim>\<open>not isinstance(v, str) or not v.strip()\<close>: the test that
  \<^verbatim>\<open>get_properties_from_text\<close> applies to both fields.
\<close>

fun not_nonempty_str :: "pyval \<Rightarrow> bool" where
  "not_nonempty_str (String s) = (strip s = [])"
| "not_nonempty_str v = True"

text \<open>
  \<^verbatim>\<open>v.strip()\<close> on a metadata value: only a \<^verbatim>\<open>str\<close> has the method, any other value
  raises \<^verbatim>\<open>AttributeError\<close>.
\<close>

fun strip_val :: "pyval \<Rightarrow> exn + pystr" where
  "strip_val (String s) = Inr (strip s)"
| "strip_val v = Inl AttributeError"

definition get_properties_from_text ::
  "parser \<Rightarrow> ValidationTextRequest \<Rightarrow> core_call list \<times> PropertiesResponse http" where
  "get_properties_from_text parse_fm request =
     (case encode_utf8_len (content request) of
        None \<Rightarrow> ([], HTTPException 500 (Internal_error UnicodeEncodeError))
      | Some content_size \<Rightarrow>
          if content_size > size_limit
          then ([], HTTPException 413 (content_size_detail content_size))
          else
            (case parse_fm (content request) of
               Inl e \<Rightarrow> ([Call_parse_frontmatter], skill_error_handlers e)
             | Inr (md, _) \<Rightarrow>
                 ([Call_parse_frontmatter],
                  case md (lit ''name'') of
                    None \<Rightarrow>
                      HTTPException 400 (Text (lit ''Missing required field in frontmatter: name''))
                  | Some nm \<Rightarrow>
                      (case md (lit ''description'') of
                         None \<Rightarrow>
                           HTTPException 400
                             (Text (lit ''Missing required field in frontmatter: description''))
                       | Some ds \<Rightarrow>
                           if not_nonempty_str nm then
                             HTTPException 400
                               (Text (lit ''Field 'name' must be a non-empty string''))
                           else if not_nonempty_str ds then
                             HTTPException 400
                               (Text (lit ''Field 'description' must be a non-empty string''))
                           else
                             (case strip_val nm of
                                Inl e \<Rightarrow> skill_error_handlers e
                              | Inr n \<Rightarrow>
                                  (case strip_val ds of
                                     Inl e \<Rightarrow> skill_error_handlers e
                                   | Inr d \<Rightarrow> Response \<lparr>name = n, description = d\<rparr>))))))"

text \<open>
  \<^verbatim>\<open>generate_prompt_text\<close> checks only that both keys are present; the XML is built from
  \<^verbatim>\<open>html.escape(name.strip())\<close> and \<^verbatim>\<open>html.escape(description.strip())\<close>.
\<close>

definition prompt_lines :: "pystr \<Rightarrow> pystr \<Rightarrow> pystr list" where
  "prompt_lines n d =
     [lit ''<available_skills>'', lit ''<skill>'',
      lit ''<name>'', html_escape n, lit ''</name>'',
      lit ''<description>'', html_escape d, lit ''</description>'',
      lit ''<location>'', lit ''memory'', lit ''</location>'',
      lit ''</skill>'', lit ''</available_skills>'']"

definition generate_prompt_text ::
  "parser \<Rightarrow> ValidationTextRequest \<Rightarrow> core_call list \<times> PromptResponse http" where
  "generate_prompt_text parse_fm request =
     (case encode_utf8_len (content request) of
        None \<Rightarrow> ([], HTTPException 500 (Internal_error UnicodeEncodeError))
      | Some content_size \<Rightarrow>
          if content_size > size_limit
          then ([], HTTPException 413 (content_size_detail content_size))
          else
            (case parse_fm (content request) of
               Inl e \<Rightarrow> ([Call_parse_frontmatter], parse_error_handlers e)
             | Inr (md, _) \<Rightarrow>
                 ([Call_parse_frontmatter],
                  case md (lit ''name'') of
                    None \<Rightarrow>
                      HTTPException 400 (Text (lit ''Missing required field in frontmatter: name''))
                  | Some nm \<Rightarrow>
                      (case md (lit ''description'') of
                         None \<Rightarrow>
                           HTTPException 400
                             (Text (lit ''Missing required field in frontmatter: description''))
                       | Some ds \<Rightarrow>
                           (case strip_val nm of
                              Inl e \<Rightarrow> parse_error_handlers e
                            | Inr n \<Rightarrow>
                                (case strip_val ds of
                                   Inl e \<Rightarrow> parse_error_handlers e
                                 | Inr d \<Rightarrow> Response \<lparr>prompt = join_nl (prompt_lines n d)\<rparr>))))))"

section \<open>The frontmatter parser\<close>

text \<open>
  Modelled from the spec: \<^verbatim>\<open>parse_frontmatter\<close> lives in \<^verbatim>\<open>parser.py\<close>, which is not
  among the sources. What follows is the algorithm of the spec's section 4.1: lines are
  separated by the newline character (code point 10), a delimiter line is exactly three
  hyphens, values are kept as strings.
\<close>

text \<open>Modelled from the spec: the text split at every newline (never the empty list).\<close>

fun split_nl :: "pystr \<Rightarrow> pystr list" where
  "split_nl [] = [[]]"
| "split_nl (c # cs) =
     (if c = 10 then [] # split_nl cs
      else (case split_nl cs of [] \<Rightarrow> [[c]] | l # ls \<Rightarrow> (c # l) # ls))"

text \<open>Modelled from the spec: the delimiter, "exactly three hyphens on their own line".\<close>

definition delimiter :: pystr where
  "delimiter = lit ''---''"

text \<open>Modelled from the spec: the first line of a document, the text before its first
  newline (the whole text when it has none).\<close>

definition first_line :: "pystr \<Rightarrow> pystr" where
  "first_line document = takeWhile (\<lambda>c. c \<noteq> 10) document"

text \<open>
  Modelled from the spec: step 2, the scan for the closing delimiter line. It returns the
  lines strictly between the delimiters and the lines after the closing one, or \<open>None\<close>
  when the input ends first.
\<close>

fun find_closing :: "pystr list \<Rightarrow> (pystr list \<times> pystr list) option" where
  "find_closing [] = None"
| "find_closing (l # ls) =
     (if l = delimiter then Some ([], ls)
      else (case find_closing ls of
              None \<Rightarrow> None
            | Some (block, rest) \<Rightarrow> Some (l # block, rest)))"

text \<open>
  Modelled from the spec: steps 1, 2 and 6. The first line must be the delimiter, a
  closing delimiter line must follow, and the text after the closing delimiter line is
  the body. The result is the lines of the metadata block and the body.
\<close>

definition split_frontmatter :: "pystr \<Rightarrow> exn + (pystr list \<times> pystr)" where
  "split_frontmatter document =
     (case split_nl document of
        [] \<Rightarrow> Inl (ParseError (lit ''missing opening delimiter''))
      | first # ls \<Rightarrow>
          if first \<noteq> delimiter then Inl (ParseError (lit ''missing opening delimiter''))
          else
            (case find_closing ls of
               None \<Rightarrow> Inl (ParseError (lit ''missing closing delimiter''))
             | Some (block, rest) \<Rightarrow> Inr (block, join_nl rest)))"

text \<open>
  Modelled from the spec: step 3, the shape of one line of the block. A blank line is
  skipped; otherwise the key is the text before the first colon, a non-empty token
  without white space, and the value is the rest of the line, trimmed, kept as a string.
  Any other line is malformed.
\<close>

datatype line_shape = Blank | Entry pystr pyval | Malformed

definition classify_line :: "pystr \<Rightarrow> line_shape" where
  "classify_line l =
     (if strip l = [] then Blank
      else
        (let key = takeWhile (\<lambda>c. c \<noteq> 58) l; rest = dropWhile (\<lambda>c. c \<noteq> 58) l
         in if key = [] \<or> rest = [] \<or> list_ex isspace key then Malformed
            else Entry key (String (strip (tl rest)))))"

text \<open>
  Modelled from the spec: steps 3 and 4 over the whole block, in line order. A malformed
  line is a \<^verbatim>\<open>ParseError\<close> that names the line number and the line; a later line with
  the same key overrides an earlier one.
\<close>

fun parse_block :: "nat \<Rightarrow> pystr list \<Rightarrow> metadata \<Rightarrow> exn + metadata" where
  "parse_block lineno [] md = Inr md"
| "parse_block lineno (l # ls) md =
     (case classify_line l of
        Blank \<Rightarrow> parse_block (Suc lineno) ls md
      | Entry k v \<Rightarrow> parse_block (Suc lineno) ls (md(k \<mapsto> v))
      | Malformed \<Rightarrow>
          Inl (ParseError (lit ''malformed line '' @ str_nat lineno @ lit '': '' @ l)))"

text \<open>
  Modelled from the spec: \<^verbatim>\<open>parse(document)\<close>, the split of the document followed by
  the parse of the block. The opening delimiter is line 1, so the block starts at line 2.
\<close>

definition parse_frontmatter :: parser where
  "parse_frontmatter document =
     (case split_frontmatter document of
        Inl e \<Rightarrow> Inl e
      | Inr (block, body) \<Rightarrow>
          (case parse_block 2 block Map.empty of
             Inl e \<Rightarrow> Inl e
           | Inr md \<Rightarrow> Inr (md, body)))"

section \<open>The metadata validator\<close>

text \<open>
  Modelled from the spec: \<^verbatim>\<open>validate_metadata\<close> lives in \<^verbatim>\<open>validator.py\<close>, which is
  not among the sources. What follows is the rule list of the spec's section 4.2.
\<close>

text \<open>
  Modelled from the spec: rules 1 and 2, the check of one required field. An absent key
  gives "missing required field"; a present value that is not a string, or is empty
  after trimming, gives "must be a non-empty string".
\<close>

definition check_required :: "string \<Rightarrow> metadata \<Rightarrow> pystr list" where
  "check_required field md =
     (case md (lit field) of
        None \<Rightarrow> [lit ''missing required field: '' @ lit field]
      | Some v \<Rightarrow>
          if not_nonempty_str v
          then [lit ''field '' @ [39] @ lit field @ [39] @ lit '' must be a non-empty string'']
          else [])"

text \<open>
  Modelled from the spec: \<^verbatim>\<open>validate(metadata, context)\<close>. Rule 3 leaves the checks
  that need a directory open; they are the parameter \<open>context_checks\<close>, run only when a
  directory is given. Every rule runs and the problems are concatenated in rule order.
\<close>

definition validate_metadata ::
  "(metadata \<Rightarrow> 'dir \<Rightarrow> pystr list) \<Rightarrow> metadata \<Rightarrow> 'dir option \<Rightarrow> pystr list" where
  "validate_metadata context_checks md skill_dir =
     check_required ''name'' md @ check_required ''description'' md @
     (case skill_dir of None \<Rightarrow> [] | Some d \<Rightarrow> context_checks md d)"

text \<open>Modelled from the spec: the validator above as the endpoints call it. Ordinary
  invalidity is data, so the call returns the list and raises nothing.\<close>

definition core_validator :: "(metadata \<Rightarrow> 'dir \<Rightarrow> pystr list) \<Rightarrow> 'dir validator" where
  "core_validator context_checks md skill_dir =
     Inr (validate_metadata context_checks md skill_dir)"

section \<open>Inputs used at concrete instances\<close>

text \<open>A text that passes the size check of the endpoints: it encodes to at most
  1,000,000 UTF-8 bytes. It is what the spec's data model calls a document, size-bounded
  by the caller.\<close>

definition within_size_limit :: "pystr \<Rightarrow> bool" where
  "within_size_limit s =
     (case encode_utf8_len s of None \<Rightarrow> False | Some n \<Rightarrow> n \<le> size_limit)"

text \<open>A parser that returns the given metadata and body for every document, and one
  that raises the given exception: the two ways a call of the imported parser can end.\<close>

definition parser_returning :: "metadata \<Rightarrow> pystr \<Rightarrow> parser" where
  "parser_returning md body document = Inr (md, body)"

definition parser_raising :: "exn \<Rightarrow> parser" where
  "parser_raising e document = Inl e"

text \<open>A validator that returns the given problems for every metadata mapping.\<close>

definition validator_returning :: "pystr list \<Rightarrow> unit validator" where
  "validator_returning ps md skill_dir = Inr ps"

text \<open>A request of 500,001 characters and 1,000,002 bytes: the letter e with acute
  accent (U+00E9, two bytes in UTF-8), 500,001 times.\<close>

definition oversized_request :: ValidationTextRequest where
  "oversized_request = \<lparr>content = replicate 500001 233\<rparr>"

text \<open>No directory checks: the parameter of the validator when no rule needs one.\<close>

definition no_context_checks :: "metadata \<Rightarrow> unit \<Rightarrow> pystr list" where
  "no_context_checks md skill_dir = []"

text \<open>A directory check after the example of the spec's rule 3: the declared name must
  be the name of the containing directory.\<close>

definition name_matches_directory :: "metadata \<Rightarrow> pystr \<Rightarrow> pystr list" where
  "name_matches_directory md dir_name =
     (if md (lit ''name'') = Some (String dir_name) then []
      else [lit ''name does not match directory''])"

text \<open>The request with empty content, for endpoints whose parser is given.\<close>

definition empty_request :: ValidationTextRequest where
  "empty_request = \<lparr>content = []\<rparr>"

text \<open>Metadata whose name is two spaces, without and with a description.\<close>

definition blank_name_only :: metadata where
  "blank_name_only = [lit ''name'' \<mapsto> String (lit ''  '')]"

definition blank_name_with_description :: metadata where
  "blank_name_with_description =
     [lit ''name'' \<mapsto> String (lit ''  ''), lit ''description'' \<mapsto> String (lit ''x'')]"

text \<open>Metadata whose two fields carry white space around their text.\<close>

definition padded_metadata :: metadata where
  "padded_metadata =
     [lit ''name'' \<mapsto> String (lit '' my-skill ''),
      lit ''description'' \<mapsto> String (lit ''A skill  '')]"

section \<open>Evaluation lemmas\<close>

lemmas str_nat_eval =
  str_nat.simps [of "numeral k"] str_nat.simps [of 1] str_nat.simps [of 0]
  str_nat.simps [of "Suc 0"] for k

lemma encode_utf8_len_replicate:
  "utf8_width c = Some k \<Longrightarrow> encode_utf8_len (replicate n c) = Some (n * k)"
  by (induction n) simp_all

lemma oversized_request_size:
  "encode_utf8_len (content oversized_request) = Some 1000002"
proof -
  have "encode_utf8_len (replicate 500001 233) = Some (500001 * 2)"
    by (rule encode_utf8_len_replicate) (simp add: utf8_width_def)
  also have "500001 * 2 = (1000002 :: nat)" by simp
  finally show ?thesis
    by (simp only: oversized_request_def ValidationTextRequest.simps)
qed

lemma oversized_request_length:
  "length (content oversized_request) \<le> max_anystr_length"
  by (simp only: oversized_request_def ValidationTextRequest.simps length_replicate
        max_anystr_length_def)

section \<open>The size guard of the endpoints\<close>

text \<open>
  Claim C4. A request whose content encodes to more than 1,000,000 UTF-8 bytes is
  rejected by each of the three text endpoints with status 413, whatever the parser and
  the validator are, and the endpoint has made no call into the core by then: the list of
  calls is empty. The size bound is enforced in the endpoints, not in the core.
\<close>

theorem oversized_content_rejected_with_413:
  assumes "encode_utf8_len (content request) = Some n" and "n > 1000000"
  shows "validate_skill_text parse_fm validate_md request =
           ([], HTTPException 413 (content_size_detail n))
       \<and> get_properties_from_text parse_fm request =
           ([], HTTPException 413 (content_size_detail n))
       \<and> generate_prompt_text parse_fm request =
           ([], HTTPException 413 (content_size_detail n))"
  using assms
  by (simp add: validate_skill_text_def get_properties_from_text_def generate_prompt_text_def
      size_limit_def)

theorem oversized_content_rejected_with_413_witness:
  "length (content oversized_request) \<le> max_anystr_length
   \<and> encode_utf8_len (content oversized_request) = Some 1000002 \<and> (1000002 :: nat) > 1000000
   \<and> validate_skill_text (parser_returning Map.empty []) (validator_returning [])
         oversized_request
       = ([], HTTPException 413 (Text (lit ''Content size 1000002 bytes exceeds 1MB limit'')))
   \<and> get_properties_from_text (parser_returning Map.empty []) oversized_request
       = ([], HTTPException 413 (Text (lit ''Content size 1000002 bytes exceeds 1MB limit'')))
   \<and> generate_prompt_text (parser_returning Map.empty []) oversized_request
       = ([], HTTPException 413 (Text (lit ''Content size 1000002 bytes exceeds 1MB limit'')))"
proof -
  have len: "length (content oversized_request) \<le> max_anystr_length"
    by (rule oversized_request_length)
  have sz: "encode_utf8_len (content oversized_request) = Some 1000002"
    by (rule oversized_request_size)
  have gt: "(1000002 :: nat) > 1000000" by simp
  have d: "content_size_detail 1000002 =
             Text (lit ''Content size 1000002 bytes exceeds 1MB limit'')"
    by (simp add: content_size_detail_def str_nat_eval lit_def)
  show ?thesis
    using oversized_content_rejected_with_413 [OF sz gt] len sz d by simp
qed

lemma empty_request_within_limit: "within_size_limit (content empty_request)"
  by (simp add: within_size_limit_def size_limit_def empty_request_def)

lemma skill_error_handlers_not_Response [simp]: "skill_error_handlers e \<noteq> Response r"
  by (cases e) simp_all

lemma parse_error_handlers_not_Response [simp]: "parse_error_handlers e \<noteq> Response r"
  by (cases e) simp_all

lemma not_nonempty_str_iff:
  "\<not> not_nonempty_str v \<longleftrightarrow> (\<exists>s. v = String s \<and> strip s \<noteq> [])"
  by (cases v) simp_all

lemmas string_eval = lit_def strip_def isspace_def

section \<open>The validation endpoint\<close>

text \<open>
  Claim C2. When \<^verbatim>\<open>/validate/text\<close> reaches the validator, that is, the content passes the
  size check, the parser returns a metadata mapping and \<^verbatim>\<open>validate_metadata\<close> returns a
  list of problems for it, the endpoint answers with a validation response whose
  \<open>valid\<close> is true if and only if that list is empty.
\<close>

theorem valid_iff_no_problems:
  assumes "within_size_limit (content request)"
      and "parse_fm (content request) = Inr (md, body)"
      and "validate_md md None = Inr ps"
  shows "\<exists>resp. validate_skill_text parse_fm validate_md request =
                  ([Call_parse_frontmatter, Call_validate_metadata], Response resp)
              \<and> (valid resp \<longleftrightarrow> ps = [])"
  using assms
  by (auto simp: validate_skill_text_def within_size_limit_def split: option.splits)

theorem valid_iff_no_problems_witness:
  "within_size_limit (content empty_request)
   \<and> parser_returning Map.empty [] (content empty_request) = Inr (Map.empty, [])
   \<and> validator_returning [] Map.empty None = Inr []
   \<and> validator_returning [lit ''p''] Map.empty None = Inr [lit ''p'']
   \<and> (\<exists>resp. validate_skill_text (parser_returning Map.empty []) (validator_returning [])
                  empty_request =
                  ([Call_parse_frontmatter, Call_validate_metadata], Response resp)
              \<and> valid resp)
   \<and> (\<exists>resp. validate_skill_text (parser_returning Map.empty [])
                  (validator_returning [lit ''p'']) empty_request =
                  ([Call_parse_frontmatter, Call_validate_metadata], Response resp)
              \<and> \<not> valid resp)"
proof -
  have a: "within_size_limit (content empty_request)"
    by (rule empty_request_within_limit)
  have b: "parser_returning Map.empty [] (content empty_request) = Inr (Map.empty, [])"
    by (simp add: parser_returning_def)
  have c: "validator_returning [] Map.empty None = Inr []"
    by (simp add: validator_returning_def)
  have d: "validator_returning [lit ''p''] Map.empty None = Inr [lit ''p'']"
    by (simp add: validator_returning_def)
  note yes = valid_iff_no_problems [where request = empty_request
      and parse_fm = "parser_returning Map.empty []" and md = Map.empty and body = "[]"
      and validate_md = "validator_returning []" and ps = "[]", OF a b c]
  note no = valid_iff_no_problems [where request = empty_request
      and parse_fm = "parser_returning Map.empty []" and md = Map.empty and body = "[]"
      and validate_md = "validator_returning [lit ''p'']" and ps = "[lit ''p'']", OF a b d]
  show ?thesis
    using yes no a b c d by simp
qed

text \<open>
  Claim C10. When the content passes the size check and \<^verbatim>\<open>parse_frontmatter\<close> raises a
  \<^verbatim>\<open>ParseError\<close> on it, \<^verbatim>\<open>/validate/text\<close> raises nothing: it returns a response with
  \<open>valid\<close> false whose problems are exactly the one message of the error. The validator
  is not called.
\<close>

theorem parse_error_reported_as_invalid:
  assumes "within_size_limit (content request)"
      and "parse_fm (content request) = Inl (ParseError m)"
  shows "validate_skill_text parse_fm validate_md request =
           ([Call_parse_frontmatter], Response \<lparr>valid = False, problems = Some [m]\<rparr>)"
  using assms
  by (auto simp: validate_skill_text_def within_size_limit_def split: option.splits)

theorem parse_error_reported_as_invalid_witness:
  "within_size_limit (content empty_request)
   \<and> parser_raising (ParseError (lit ''missing opening delimiter'')) (content empty_request)
       = Inl (ParseError (lit ''missing opening delimiter''))
   \<and> validate_skill_text (parser_raising (ParseError (lit ''missing opening delimiter'')))
         (validator_returning []) empty_request
       = ([Call_parse_frontmatter],
          Response \<lparr>valid = False, problems = Some [lit ''missing opening delimiter'']\<rparr>)"
proof -
  have a: "within_size_limit (content empty_request)"
    by (rule empty_request_within_limit)
  have b: "parser_raising (ParseError (lit ''missing opening delimiter''))
             (content empty_request) = Inl (ParseError (lit ''missing opening delimiter''))"
    by (simp add: parser_raising_def)
  show ?thesis
    using parse_error_reported_as_invalid
      [where parse_fm = "parser_raising (ParseError (lit ''missing opening delimiter''))"
         and validate_md = "validator_returning []", OF a b] a b
    by simp
qed

section \<open>The properties and prompt endpoints\<close>

text \<open>
  Claim C9. Whenever \<^verbatim>\<open>/properties/text\<close> succeeds, the parser has returned metadata
  whose \<open>name\<close> and \<open>description\<close> are strings, and the name and description of the
  response are those strings with leading and trailing white space removed.
\<close>

theorem properties_are_stripped:
  assumes "get_properties_from_text parse_fm request = (calls, Response resp)"
  shows "\<exists>md body n d. parse_fm (content request) = Inr (md, body)
           \<and> md (lit ''name'') = Some (String n)
           \<and> md (lit ''description'') = Some (String d)
           \<and> name resp = strip n \<and> description resp = strip d"
  using assms
  by (auto simp: get_properties_from_text_def not_nonempty_str_iff
      split: option.splits if_splits sum.splits prod.splits)

theorem properties_are_stripped_witness:
  "get_properties_from_text (parser_returning padded_metadata []) empty_request
     = ([Call_parse_frontmatter],
        Response \<lparr>name = lit ''my-skill'', description = lit ''A skill''\<rparr>)
   \<and> (\<exists>md body n d.
         parser_returning padded_metadata [] (content empty_request) = Inr (md, body)
       \<and> md (lit ''name'') = Some (String n)
       \<and> md (lit ''description'') = Some (String d)
       \<and> lit ''my-skill'' = strip n \<and> lit ''A skill'' = strip d)
   \<and> padded_metadata (lit ''name'') = Some (String (lit '' my-skill ''))
   \<and> lit ''my-skill'' \<noteq> lit '' my-skill ''"
proof -
  have a: "get_properties_from_text (parser_returning padded_metadata []) empty_request
     = ([Call_parse_frontmatter],
        Response \<lparr>name = lit ''my-skill'', description = lit ''A skill''\<rparr>)"
    by (simp add: get_properties_from_text_def parser_returning_def size_limit_def
        empty_request_def padded_metadata_def string_eval)
  have b: "padded_metadata (lit ''name'') = Some (String (lit '' my-skill ''))"
    by (simp add: padded_metadata_def lit_def)
  have c: "lit ''my-skill'' \<noteq> lit '' my-skill ''"
    by (simp add: lit_def)
  show ?thesis
    using properties_are_stripped
      [where parse_fm = "parser_returning padded_metadata []" and request = empty_request, OF a]
      a b c
    by simp
qed

text \<open>
  Claim C8. When the content passes the size check, the parser returns metadata, and
  \<open>name\<close> and \<open>description\<close> are both present as strings, \<^verbatim>\<open>/prompt/text\<close> succeeds with
  the prompt built from the trimmed and escaped values, also when a value trims to the
  empty string. On the same request \<^verbatim>\<open>/properties/text\<close> answers 400 as soon as one of
  the two trims to the empty string.
\<close>

theorem prompt_needs_presence_only:
  assumes "within_size_limit (content request)"
      and "parse_fm (content request) = Inr (md, body)"
      and "md (lit ''name'') = Some (String n)"
      and "md (lit ''description'') = Some (String d)"
  shows "generate_prompt_text parse_fm request =
           ([Call_parse_frontmatter],
            Response \<lparr>prompt = join_nl (prompt_lines (strip n) (strip d))\<rparr>)
       \<and> (strip n = [] \<longrightarrow> get_properties_from_text parse_fm request =
           ([Call_parse_frontmatter],
            HTTPException 400 (Text (lit ''Field 'name' must be a non-empty string''))))
       \<and> (strip n \<noteq> [] \<and> strip d = [] \<longrightarrow> get_properties_from_text parse_fm request =
           ([Call_parse_frontmatter],
            HTTPException 400 (Text (lit ''Field 'description' must be a non-empty string''))))"
  using assms
  by (auto simp: generate_prompt_text_def get_properties_from_text_def within_size_limit_def
      split: option.splits)

theorem prompt_needs_presence_only_witness:
  "within_size_limit (content empty_request)
   \<and> parser_returning blank_name_with_description [] (content empty_request)
       = Inr (blank_name_with_description, [])
   \<and> blank_name_with_description (lit ''name'') = Some (String (lit ''  ''))
   \<and> blank_name_with_description (lit ''description'') = Some (String (lit ''x''))
   \<and> strip (lit ''  '') = []
   \<and> generate_prompt_text (parser_returning blank_name_with_description []) empty_request
       = ([Call_parse_frontmatter],
          Response \<lparr>prompt = lit (''<available_skills>\<newline><skill>\<newline><name>\<newline>\<newline></name>\<newline>'' @
            ''<description>\<newline>x\<newline></description>\<newline><location>\<newline>memory\<newline></location>\<newline>'' @
            ''</skill>\<newline></available_skills>'')\<rparr>)
   \<and> get_properties_from_text (parser_returning blank_name_with_description []) empty_request
       = ([Call_parse_frontmatter],
          HTTPException 400 (Text (lit ''Field 'name' must be a non-empty string'')))"
proof -
  have a: "within_size_limit (content empty_request)"
    by (rule empty_request_within_limit)
  have b: "parser_returning blank_name_with_description [] (content empty_request)
       = Inr (blank_name_with_description, [])"
    by (simp add: parser_returning_def)
  have c: "blank_name_with_description (lit ''name'') = Some (String (lit ''  ''))"
    by (simp add: blank_name_with_description_def lit_def)
  have d: "blank_name_with_description (lit ''description'') = Some (String (lit ''x''))"
    by (simp add: blank_name_with_description_def lit_def)
  have e: "strip (lit ''  '') = []" "strip (lit ''x'') = lit ''x''"
    by (simp_all add: string_eval)
  have f: "join_nl (prompt_lines [] (lit ''x'')) =
      lit (''<available_skills>\<newline><skill>\<newline><name>\<newline>\<newline></name>\<newline>'' @
            ''<description>\<newline>x\<newline></description>\<newline><location>\<newline>memory\<newline></location>\<newline>'' @
            ''</skill>\<newline></available_skills>'')"
    by (simp add: prompt_lines_def html_escape_def escape_char_def lit_def)
  show ?thesis
    using prompt_needs_presence_only
      [where request = empty_request and md = blank_name_with_description
         and parse_fm = "parser_returning blank_name_with_description []", OF a b c d]
      a b c d e f
    by simp
qed

text \<open>
  Claim C3, as stated, for the endpoint: metadata whose name is blank is rejected by
  \<^verbatim>\<open>/properties/text\<close> with the message "field 'name' must be a non-empty string". It
  fails twice. With no description, the 400 answer carries the message of the missing
  description, because both presence checks come first; with a description, the detail
  reads "Field 'name' must be a non-empty string", with a capital F.
\<close>

theorem blank_name_message_counterexample:
  "get_properties_from_text (parser_returning blank_name_only []) empty_request
     = ([Call_parse_frontmatter],
        HTTPException 400 (Text (lit ''Missing required field in frontmatter: description'')))
   \<and> get_properties_from_text (parser_returning blank_name_only []) empty_request
     \<noteq> ([Call_parse_frontmatter],
        HTTPException 400 (Text (lit ''field 'name' must be a non-empty string'')))
   \<and> get_properties_from_text (parser_returning blank_name_with_description []) empty_request
     = ([Call_parse_frontmatter],
        HTTPException 400 (Text (lit ''Field 'name' must be a non-empty string'')))
   \<and> get_properties_from_text (parser_returning blank_name_with_description []) empty_request
     \<noteq> ([Call_parse_frontmatter],
        HTTPException 400 (Text (lit ''field 'name' must be a non-empty string'')))"
  by (simp add: get_properties_from_text_def parser_returning_def size_limit_def
      empty_request_def blank_name_only_def blank_name_with_description_def string_eval)

text \<open>
  Claim C3, amended. When the content passes the size check, the parser returns metadata
  and the name is present but is not a string or is empty after trimming:
  \<^verbatim>\<open>/properties/text\<close> answers 400 with "Field 'name' must be a non-empty string" if the
  description is present too, and 400 with "Missing required field in frontmatter:
  description" if it is absent; and the validator of the spec reports the problem
  "field 'name' must be a non-empty string".
\<close>

theorem blank_name_rejected:
  assumes "within_size_limit (content request)"
      and "parse_fm (content request) = Inr (md, body)"
      and "md (lit ''name'') = Some v"
      and "not_nonempty_str v"
  shows "(md (lit ''description'') \<noteq> None \<longrightarrow>
            get_properties_from_text parse_fm request =
              ([Call_parse_frontmatter],
               HTTPException 400 (Text (lit ''Field 'name' must be a non-empty string''))))
       \<and> (md (lit ''description'') = None \<longrightarrow>
            get_properties_from_text parse_fm request =
              ([Call_parse_frontmatter],
               HTTPException 400
                 (Text (lit ''Missing required field in frontmatter: description''))))
       \<and> lit ''field 'name' must be a non-empty string''
            \<in> set (validate_metadata context_checks md skill_dir)"
proof -
  have "lit ''field 'name' must be a non-empty string''
          \<in> set (check_required ''name'' md)"
    using assms(3,4) by (simp add: check_required_def lit_def)
  then have "lit ''field 'name' must be a non-empty string''
          \<in> set (validate_metadata context_checks md skill_dir)"
    by (simp add: validate_metadata_def)
  with assms show ?thesis
    by (auto simp: get_properties_from_text_def within_size_limit_def split: option.splits)
qed

theorem blank_name_rejected_witness:
  "within_size_limit (content empty_request)
   \<and> parser_returning blank_name_with_description [] (content empty_request)
       = Inr (blank_name_with_description, [])
   \<and> blank_name_with_description (lit ''name'') = Some (String (lit ''  ''))
   \<and> not_nonempty_str (String (lit ''  ''))
   \<and> blank_name_with_description (lit ''description'') \<noteq> None
   \<and> get_properties_from_text (parser_returning blank_name_with_description []) empty_request
       = ([Call_parse_frontmatter],
          HTTPException 400 (Text (lit ''Field 'name' must be a non-empty string'')))
   \<and> lit ''field 'name' must be a non-empty string''
        \<in> set (validate_metadata no_context_checks blank_name_with_description None)"
proof -
  have a: "within_size_limit (content empty_request)"
    by (rule empty_request_within_limit)
  have b: "parser_returning blank_name_with_description [] (content empty_request)
       = Inr (blank_name_with_description, [])"
    by (simp add: parser_returning_def)
  have c: "blank_name_with_description (lit ''name'') = Some (String (lit ''  ''))"
    by (simp add: blank_name_with_description_def lit_def)
  have d: "not_nonempty_str (String (lit ''  ''))"
    by (simp add: string_eval)
  have e: "blank_name_with_description (lit ''description'') \<noteq> None"
    by (simp add: blank_name_with_description_def lit_def)
  show ?thesis
    using blank_name_rejected
      [where request = empty_request and md = blank_name_with_description
         and parse_fm = "parser_returning blank_name_with_description []"
         and context_checks = no_context_checks and skill_dir = None, OF a b c d]
      a b c d e
    by simp
qed

section \<open>Lines and the frontmatter block\<close>

lemma split_nl_not_Nil [simp]: "split_nl s \<noteq> []"
  by (induction s) (auto split: list.splits)

lemma hd_split_nl: "hd (split_nl s) = first_line s"
  by (induction s) (auto simp: first_line_def split: list.splits)

lemma split_nl_no_newline: "l \<in> set (split_nl s) \<Longrightarrow> 10 \<notin> set l"
  by (induction s arbitrary: l) (auto split: list.splits if_splits)

lemma join_nl_Cons: "join_nl (l # ls) = (if ls = [] then l else l @ 10 # join_nl ls)"
  by (cases ls) simp_all

lemma join_split_nl: "join_nl (split_nl s) = s"
  by (induction s) (auto simp: join_nl_Cons split: list.splits)

lemma join_nl_append_Cons:
  "join_nl (block @ x # rest) = concat (map (\<lambda>l. l @ [10]) block) @ join_nl (x # rest)"
  by (induction block) (simp_all add: join_nl_Cons)

lemma find_closing_Some:
  "find_closing ls = Some (block, rest) \<Longrightarrow>
   ls = block @ delimiter # rest \<and> delimiter \<notin> set block"
  by (induction ls arbitrary: block) (auto split: if_splits option.splits)

lemma split_frontmatter_shape:
  assumes "split_frontmatter document = Inr (block, body)"
  shows "delimiter \<notin> set block \<and> (\<forall>l \<in> set block. 10 \<notin> set l) \<and>
         (document =
            delimiter @ [10] @ concat (map (\<lambda>l. l @ [10]) block) @ delimiter @ [10] @ body
          \<or> document = delimiter @ [10] @ concat (map (\<lambda>l. l @ [10]) block) @ delimiter
            \<and> body = [])"
proof -
  from assms obtain ls rest where
    sp: "split_nl document = delimiter # ls" and fc: "find_closing ls = Some (block, rest)"
    and body: "body = join_nl rest"
    by (auto simp: split_frontmatter_def split: list.splits if_splits option.splits)
  from find_closing_Some [OF fc] have ls: "ls = block @ delimiter # rest"
    and nd: "delimiter \<notin> set block" by simp_all
  have nn: "\<forall>l \<in> set block. 10 \<notin> set l"
    using split_nl_no_newline [of _ document] sp ls by auto
  have "document = join_nl (delimiter # block @ delimiter # rest)"
    using join_split_nl [of document] sp ls by simp
  also have "\<dots> = delimiter @ 10 # join_nl (block @ delimiter # rest)"
    by (simp add: join_nl_Cons)
  also have "\<dots> =
      delimiter @ [10] @ concat (map (\<lambda>l. l @ [10]) block) @ join_nl (delimiter # rest)"
    by (simp add: join_nl_append_Cons)
  finally have doc: "document =
      delimiter @ [10] @ concat (map (\<lambda>l. l @ [10]) block) @ join_nl (delimiter # rest)" .
  show ?thesis
  proof (cases "rest = []")
    case True
    with doc body nd nn show ?thesis by simp
  next
    case False
    with doc body nd nn show ?thesis by (simp add: join_nl_Cons)
  qed
qed

lemma parse_block_total:
  "\<forall>x \<in> set ls. classify_line x \<noteq> Malformed \<Longrightarrow> \<exists>md'. parse_block n ls md = Inr md'"
  by (induction ls arbitrary: n md) (auto split: line_shape.splits)

lemma parse_block_other_keys:
  "parse_block n ls md = Inr md' \<Longrightarrow>
   \<forall>x \<in> set ls. \<forall>v'. classify_line x \<noteq> Entry k v' \<Longrightarrow> md' k = md k"
  by (induction ls arbitrary: n md) (auto split: line_shape.splits)

lemma parse_block_append:
  "parse_block n (pre @ ls) md = Inr md' \<Longrightarrow>
   \<exists>md1. parse_block n pre md = Inr md1 \<and> parse_block (n + length pre) ls md1 = Inr md'"
proof (induction pre arbitrary: n md)
  case Nil
  then show ?case by simp
next
  case (Cons a pre)
  show ?case
  proof (cases "classify_line a")
    case Blank
    with Cons.prems have "parse_block (Suc n) (pre @ ls) md = Inr md'" by simp
    from Cons.IH [OF this] Blank show ?thesis by simp
  next
    case (Entry k v)
    with Cons.prems have "parse_block (Suc n) (pre @ ls) (md(k \<mapsto> v)) = Inr md'" by simp
    from Cons.IH [OF this] obtain md1 where
      m: "parse_block (Suc n) pre (md(k \<mapsto> v)) = Inr md1"
         "parse_block (Suc n + length pre) ls md1 = Inr md'" by blast
    have "parse_block n (a # pre) md = Inr md1" using Entry m(1) by simp
    moreover have "parse_block (n + length (a # pre)) ls md1 = Inr md'" using m(2) by simp
    ultimately show ?thesis by blast
  next
    case Malformed
    with Cons.prems show ?thesis by simp
  qed
qed

lemmas parser_eval = parse_frontmatter_def split_frontmatter_def classify_line_def
  delimiter_def lit_def strip_def isspace_def

section \<open>The parser\<close>

text \<open>
  Claim C5. A document whose first line is not the delimiter of three hyphens, the empty
  document among them, is not parsed: \<^verbatim>\<open>parse\<close> fails with the \<^verbatim>\<open>ParseError\<close> of the
  missing opening delimiter and returns no metadata.
\<close>

theorem no_opening_delimiter_is_parse_error:
  assumes "first_line document \<noteq> delimiter"
  shows "parse_frontmatter document = Inl (ParseError (lit ''missing opening delimiter''))"
proof (cases "split_nl document")
  case Nil
  then show ?thesis by simp
next
  case (Cons first ls)
  then have "first = first_line document"
    using hd_split_nl [of document] by simp
  with assms Cons show ?thesis
    by (simp add: parse_frontmatter_def split_frontmatter_def)
qed

theorem no_opening_delimiter_is_parse_error_witness:
  "first_line [] \<noteq> delimiter
   \<and> parse_frontmatter [] = Inl (ParseError (lit ''missing opening delimiter''))
   \<and> first_line (lit ''name: a\<newline>---\<newline>'') \<noteq> delimiter
   \<and> parse_frontmatter (lit ''name: a\<newline>---\<newline>'')
       = Inl (ParseError (lit ''missing opening delimiter''))"
proof -
  have a: "first_line [] \<noteq> delimiter"
    by (simp add: first_line_def delimiter_def lit_def)
  have b: "first_line (lit ''name: a\<newline>---\<newline>'') \<noteq> delimiter"
    by (simp add: first_line_def delimiter_def lit_def)
  show ?thesis
    using no_opening_delimiter_is_parse_error [OF a] no_opening_delimiter_is_parse_error [OF b]
      a b
    by simp
qed

text \<open>
  Claim C6. When the lines of the metadata block are all well formed and a line gives
  the key \<open>k\<close> the value \<open>v\<close>, and no later line of the block has the key \<open>k\<close>, then the
  document parses and the metadata maps \<open>k\<close> to \<open>v\<close>, whatever the earlier lines gave
  that key: the last occurrence wins.
\<close>

theorem duplicate_key_last_wins:
  assumes "split_frontmatter document = Inr (pre @ l # post, body)"
      and "\<forall>x \<in> set (pre @ l # post). classify_line x \<noteq> Malformed"
      and "classify_line l = Entry k v"
      and "\<forall>x \<in> set post. \<forall>v'. classify_line x \<noteq> Entry k v'"
  shows "\<exists>md. parse_frontmatter document = Inr (md, body) \<and> md k = Some v"
proof -
  from parse_block_total [OF assms(2)] obtain md where
    pb: "parse_block 2 (pre @ l # post) Map.empty = Inr md" by blast
  from parse_block_append [OF pb] obtain md1 where
    "parse_block (2 + length pre) (l # post) md1 = Inr md" by blast
  with assms(3) have "parse_block (Suc (2 + length pre)) post (md1(k \<mapsto> v)) = Inr md"
    by simp
  from parse_block_other_keys [OF this assms(4)] have "md k = Some v" by simp
  with pb assms(1) show ?thesis by (simp add: parse_frontmatter_def)
qed

theorem duplicate_key_last_wins_witness:
  "split_frontmatter (lit ''---\<newline>name: a\<newline>name: b\<newline>---\<newline>'')
     = Inr ([lit ''name: a''] @ lit ''name: b'' # [], [])
   \<and> classify_line (lit ''name: a'') = Entry (lit ''name'') (String (lit ''a''))
   \<and> classify_line (lit ''name: b'') = Entry (lit ''name'') (String (lit ''b''))
   \<and> (\<exists>md. parse_frontmatter (lit ''---\<newline>name: a\<newline>name: b\<newline>---\<newline>'') = Inr (md, [])
           \<and> md (lit ''name'') = Some (String (lit ''b'')))
   \<and> split_frontmatter (lit ''---\<newline>name: b\<newline>name: a\<newline>---\<newline>'')
     = Inr ([lit ''name: b''] @ lit ''name: a'' # [], [])
   \<and> (\<exists>md. parse_frontmatter (lit ''---\<newline>name: b\<newline>name: a\<newline>---\<newline>'') = Inr (md, [])
           \<and> md (lit ''name'') = Some (String (lit ''a'')))"
proof -
  have a: "split_frontmatter (lit ''---\<newline>name: a\<newline>name: b\<newline>---\<newline>'')
     = Inr ([lit ''name: a''] @ lit ''name: b'' # [], [])"
    by (simp add: parser_eval)
  have a': "split_frontmatter (lit ''---\<newline>name: b\<newline>name: a\<newline>---\<newline>'')
     = Inr ([lit ''name: b''] @ lit ''name: a'' # [], [])"
    by (simp add: parser_eval)
  have b: "\<forall>x \<in> set ([lit ''name: a''] @ lit ''name: b'' # []). classify_line x \<noteq> Malformed"
    by (simp add: parser_eval)
  have b': "\<forall>x \<in> set ([lit ''name: b''] @ lit ''name: a'' # []). classify_line x \<noteq> Malformed"
    by (simp add: parser_eval)
  have c: "classify_line (lit ''name: b'') = Entry (lit ''name'') (String (lit ''b''))"
    by (simp add: parser_eval)
  have c': "classify_line (lit ''name: a'') = Entry (lit ''name'') (String (lit ''a''))"
    by (simp add: parser_eval)
  have d: "\<forall>x \<in> set []. \<forall>v'. classify_line x \<noteq> Entry (lit ''name'') v'"
    by simp
  show ?thesis
    using duplicate_key_last_wins [OF a b c d] duplicate_key_last_wins [OF a' b' c' d]
      a a' c c'
    by blast
qed

text \<open>
  Claim C7. When a document parses, it is made of the opening delimiter line, the lines
  of the block (none of them a delimiter), the closing delimiter line, and then the
  body, character for character: the body is the text that follows the newline of the
  closing delimiter line, and it is empty when the document ends with the closing
  delimiter.
\<close>

theorem body_follows_closing_delimiter:
  assumes "parse_frontmatter document = Inr (md, body)"
  shows "\<exists>block. delimiter \<notin> set block \<and> (\<forall>l \<in> set block. 10 \<notin> set l) \<and>
         (document =
            delimiter @ [10] @ concat (map (\<lambda>l. l @ [10]) block) @ delimiter @ [10] @ body
          \<or> document = delimiter @ [10] @ concat (map (\<lambda>l. l @ [10]) block) @ delimiter
            \<and> body = [])"
proof -
  from assms obtain block where "split_frontmatter document = Inr (block, body)"
    by (auto simp: parse_frontmatter_def split: sum.splits prod.splits)
  from split_frontmatter_shape [OF this] show ?thesis by blast
qed

theorem body_follows_closing_delimiter_witness:
  "parse_frontmatter (lit ''---\<newline>name: foo\<newline>description: bar\<newline>---\<newline>Hello\<newline> there'')
     = Inr ([lit ''name'' \<mapsto> String (lit ''foo''), lit ''description'' \<mapsto> String (lit ''bar'')],
            lit ''Hello\<newline> there'')
   \<and> (\<exists>block. delimiter \<notin> set block \<and> (\<forall>l \<in> set block. 10 \<notin> set l) \<and>
         (lit ''---\<newline>name: foo\<newline>description: bar\<newline>---\<newline>Hello\<newline> there'' =
            delimiter @ [10] @ concat (map (\<lambda>l. l @ [10]) block) @ delimiter @ [10]
              @ lit ''Hello\<newline> there''
          \<or> lit ''---\<newline>name: foo\<newline>description: bar\<newline>---\<newline>Hello\<newline> there'' =
            delimiter @ [10] @ concat (map (\<lambda>l. l @ [10]) block) @ delimiter
            \<and> lit ''Hello\<newline> there'' = []))"
proof -
  have a: "parse_frontmatter
      (lit ''---\<newline>name: foo\<newline>description: bar\<newline>---\<newline>Hello\<newline> there'')
     = Inr ([lit ''name'' \<mapsto> String (lit ''foo''), lit ''description'' \<mapsto> String (lit ''bar'')],
            lit ''Hello\<newline> there'')"
    by (simp add: parser_eval)
  show ?thesis
    using body_follows_closing_delimiter [OF a] a by blast
qed

section \<open>The validator\<close>

lemma validate_metadata_unfolded:
  "validate_metadata context_checks md skill_dir =
     (case md (lit ''name'') of
        None \<Rightarrow> [lit ''missing required field: name'']
      | Some v \<Rightarrow> if not_nonempty_str v
                  then [lit ''field 'name' must be a non-empty string''] else [])
     @ (case md (lit ''description'') of
        None \<Rightarrow> [lit ''missing required field: description'']
      | Some v \<Rightarrow> if not_nonempty_str v
                  then [lit ''field 'description' must be a non-empty string''] else [])
     @ (case skill_dir of None \<Rightarrow> [] | Some d \<Rightarrow> context_checks md d)"
  by (simp add: validate_metadata_def check_required_def lit_def split: option.splits)

lemma validate_skill_text_hands_on:
  assumes "within_size_limit (content request)"
      and "parse_fm (content request) = Inr (md, body)"
      and "validate_md md None = Inr ps"
  shows "validate_skill_text parse_fm validate_md request =
           ([Call_parse_frontmatter, Call_validate_metadata],
            Response \<lparr>valid = (ps = []), problems = (if ps = [] then None else Some ps)\<rparr>)"
  using assms
  by (auto simp: validate_skill_text_def within_size_limit_def split: option.splits)

text \<open>
  Claim C1. For the empty metadata mapping and no directory, the validator returns
  exactly two problems, the missing name and the missing description, in that order.
  Validation never stops at a failure. For every mapping and every directory context the
  result is the problem of the name rule (if it fails), followed by the problem of the
  description rule (if it fails), followed by every problem of the directory checks (if a
  directory is given): a missing name is reported whatever else fails, a missing
  description is reported whatever else fails, and the problems of the directory checks
  are all in the result whether or not a required field failed. On the side of the
  server, \<^verbatim>\<open>/validate/text\<close> hands on the whole list it gets from the validator, for
  every parser, validator and list: the response carries all the problems, not the first
  one. For the empty mapping the response carries both problems.
\<close>

theorem empty_metadata_has_two_problems:
  "validate_metadata context_checks Map.empty None =
     [lit ''missing required field: name'', lit ''missing required field: description'']
   \<and> validate_metadata context_checks md skill_dir =
       (case md (lit ''name'') of
          None \<Rightarrow> [lit ''missing required field: name'']
        | Some v \<Rightarrow> if not_nonempty_str v
                    then [lit ''field 'name' must be a non-empty string''] else [])
       @ (case md (lit ''description'') of
          None \<Rightarrow> [lit ''missing required field: description'']
        | Some v \<Rightarrow> if not_nonempty_str v
                    then [lit ''field 'description' must be a non-empty string''] else [])
       @ (case skill_dir of None \<Rightarrow> [] | Some d \<Rightarrow> context_checks md d)
   \<and> (md (lit ''name'') = None \<longrightarrow>
        lit ''missing required field: name''
          \<in> set (validate_metadata context_checks md skill_dir))
   \<and> (md (lit ''description'') = None \<longrightarrow>
        lit ''missing required field: description''
          \<in> set (validate_metadata context_checks md skill_dir))
   \<and> set (context_checks md d) \<subseteq> set (validate_metadata context_checks md (Some d))
   \<and> (within_size_limit (content request) \<and> parse_fm (content request) = Inr (md, body)
        \<and> validate_md md None = Inr ps
        \<longrightarrow> validate_skill_text parse_fm validate_md request =
              ([Call_parse_frontmatter, Call_validate_metadata],
               Response \<lparr>valid = (ps = []),
                         problems = (if ps = [] then None else Some ps)\<rparr>))
   \<and> (within_size_limit (content request) \<and> parse_fm (content request) = Inr (Map.empty, body)
        \<longrightarrow> validate_skill_text parse_fm (core_validator context_checks) request =
              ([Call_parse_frontmatter, Call_validate_metadata],
               Response \<lparr>valid = False,
                         problems = Some [lit ''missing required field: name'',
                                          lit ''missing required field: description'']\<rparr>))"
proof -
  have two: "validate_metadata context_checks Map.empty None =
     [lit ''missing required field: name'', lit ''missing required field: description'']"
    by (simp add: validate_metadata_unfolded)
  have name_missing: "md (lit ''name'') = None \<longrightarrow>
        lit ''missing required field: name''
          \<in> set (validate_metadata context_checks md skill_dir)"
    by (simp add: validate_metadata_unfolded)
  have description_missing: "md (lit ''description'') = None \<longrightarrow>
        lit ''missing required field: description''
          \<in> set (validate_metadata context_checks md skill_dir)"
    by (simp add: validate_metadata_unfolded)
  have dir_checks:
    "set (context_checks md d) \<subseteq> set (validate_metadata context_checks md (Some d))"
    by (auto simp: validate_metadata_unfolded)
  have hands_on:
    "within_size_limit (content request) \<and> parse_fm (content request) = Inr (md, body)
        \<and> validate_md md None = Inr ps
        \<longrightarrow> validate_skill_text parse_fm validate_md request =
              ([Call_parse_frontmatter, Call_validate_metadata],
               Response \<lparr>valid = (ps = []),
                         problems = (if ps = [] then None else Some ps)\<rparr>)"
    using validate_skill_text_hands_on [of request parse_fm md body validate_md ps] by blast
  have empty_md:
    "within_size_limit (content request) \<and> parse_fm (content request) = Inr (Map.empty, body)
        \<longrightarrow> validate_skill_text parse_fm (core_validator context_checks) request =
              ([Call_parse_frontmatter, Call_validate_metadata],
               Response \<lparr>valid = False,
                         problems = Some [lit ''missing required field: name'',
                                          lit ''missing required field: description'']\<rparr>)"
    using validate_skill_text_hands_on
      [of request parse_fm Map.empty body "core_validator context_checks"
         "validate_metadata context_checks Map.empty None"]
    by (simp add: core_validator_def two)
  from two validate_metadata_unfolded [of context_checks md skill_dir]
    name_missing description_missing dir_checks hands_on empty_md
  show ?thesis by blast
qed

theorem empty_metadata_has_two_problems_witness:
  "within_size_limit (content empty_request)
   \<and> validate_metadata name_matches_directory Map.empty None =
       [lit ''missing required field: name'', lit ''missing required field: description'']
   \<and> validate_metadata name_matches_directory blank_name_only (Some (lit ''my-skill'')) =
       [lit ''field 'name' must be a non-empty string'',
        lit ''missing required field: description'',
        lit ''name does not match directory'']
   \<and> validate_skill_text (parser_returning blank_name_only [])
       (validator_returning [lit ''first'', lit ''second'', lit ''third'']) empty_request =
         ([Call_parse_frontmatter, Call_validate_metadata],
          Response \<lparr>valid = False,
                    problems = Some [lit ''first'', lit ''second'', lit ''third'']\<rparr>)
   \<and> validate_skill_text (parser_returning Map.empty [])
       (core_validator name_matches_directory) empty_request =
         ([Call_parse_frontmatter, Call_validate_metadata],
          Response \<lparr>valid = False,
                    problems = Some [lit ''missing required field: name'',
                                     lit ''missing required field: description'']\<rparr>)"
proof -
  have a: "within_size_limit (content empty_request)"
    by (rule empty_request_within_limit)
  have name_blank: "blank_name_only (lit ''name'') = Some (String (lit ''  ''))"
    and description_absent: "blank_name_only (lit ''description'') = None"
    by (simp_all add: blank_name_only_def lit_def)
  have blank: "not_nonempty_str (String (lit ''  ''))"
    by (simp add: string_eval)
  have mismatch: "name_matches_directory blank_name_only (lit ''my-skill'') =
                    [lit ''name does not match directory'']"
    by (simp add: name_matches_directory_def blank_name_only_def lit_def)
  note with_directory = empty_metadata_has_two_problems
      [where context_checks = name_matches_directory and md = blank_name_only
         and skill_dir = "Some (lit ''my-skill'')" and d = "lit ''my-skill''"
         and request = empty_request and parse_fm = "parser_returning blank_name_only []"
         and body = "[]"
         and validate_md = "validator_returning [lit ''first'', lit ''second'', lit ''third'']"
         and ps = "[lit ''first'', lit ''second'', lit ''third'']"]
  note with_empty = empty_metadata_has_two_problems
      [where context_checks = name_matches_directory and md = Map.empty
         and skill_dir = None and d = "lit ''my-skill''"
         and request = empty_request and parse_fm = "parser_returning Map.empty []"
         and body = "[]"
         and validate_md = "validator_returning []" and ps = "[]"]
  show ?thesis
    using with_directory with_empty a name_blank description_absent blank mismatch
    by (simp add: parser_returning_def validator_returning_def)
qed

end
